theory Spec2Isabelle
  imports Main
begin

section \<open>Values, attribute namespaces and parsed arguments\<close>

text \<open>
  The values that reach \<^verbatim>\<open>main\<close> from the command line and from the YAML document:
  \<^verbatim>\<open>None\<close>, booleans, unbounded integers, strings, lists and mappings. Floats,
  timestamps and binary scalars of YAML are left out. A string is the list of the bytes
  of its UTF-8 encoding, so a character outside ASCII is a run of bytes from 128 on.
\<close>

datatype pyval =
    PNone
  | PBool bool
  | PInt int
  | PStr string
  | PList "pyval list"
  | PDict "(pyval \<times> pyval) list"

text \<open>Truth value testing, as \<^verbatim>\<open>not x\<close> and \<^verbatim>\<open>x and y\<close> apply it.\<close>

fun truthy :: "pyval \<Rightarrow> bool" where
  "truthy PNone = False"
| "truthy (PBool b) = b"
| "truthy (PInt i) = (i \<noteq> 0)"
| "truthy (PStr s) = (s \<noteq> [])"
| "truthy (PList xs) = (xs \<noteq> [])"
| "truthy (PDict kvs) = (kvs \<noteq> [])"

text \<open>An \<^verbatim>\<open>argparse.Namespace\<close>: the attributes that are set, by name.\<close>

type_synonym namespace = "string \<rightharpoonup> pyval"

text \<open>\<^verbatim>\<open>getattr(ns, key, None)\<close> and \<^verbatim>\<open>hasattr(ns, key)\<close>.\<close>

definition getattr :: "namespace \<Rightarrow> string \<Rightarrow> pyval" where
  "getattr ns key = (case ns key of None \<Rightarrow> PNone | Some v \<Rightarrow> v)"

definition hasattr :: "namespace \<Rightarrow> string \<Rightarrow> bool" where
  "hasattr ns key = (ns key \<noteq> None)"

text \<open>
  What \<^verbatim>\<open>parser.parse_args()\<close> returns for the parser of
  \<^verbatim>\<open>create_argument_parser\<close>: every option without a default is \<^verbatim>\<open>None\<close> when it
  is not passed, and the \<^verbatim>\<open>store_true\<close> flag \<^verbatim>\<open>--stealth\<close> is \<^verbatim>\<open>False\<close>.
\<close>

record args =
  target :: "string option"
  "method" :: "string option"
  config :: "string option"
  attacks :: "string list option"
  connections :: "int option"
  duration :: "int option"
  confirm_target :: "string option"
  stealth :: bool

definition opt :: "('a \<Rightarrow> pyval) \<Rightarrow> 'a option \<Rightarrow> pyval" where
  "opt f x = (case x of None \<Rightarrow> PNone | Some v \<Rightarrow> f v)"

text \<open>\<^verbatim>\<open>vars(args).items()\<close>: one pair for each destination of the parser.\<close>

definition vars :: "args \<Rightarrow> (string \<times> pyval) list" where
  "vars a =
     [(''target'', opt PStr (target a)),
      (''method'', opt PStr (method a)),
      (''config'', opt PStr (config a)),
      (''attacks'', opt (\<lambda>xs. PList (map PStr xs)) (attacks a)),
      (''connections'', opt PInt (connections a)),
      (''duration'', opt PInt (duration a)),
      (''confirm_target'', opt PStr (confirm_target a)),
      (''stealth'', PBool (stealth a))]"

section \<open>The outside world and the process result\<close>

text \<open>
  What a path names when \<^verbatim>\<open>main\<close> looks at it: nothing (\<^verbatim>\<open>os.path.exists\<close> is
  false), something that \<^verbatim>\<open>open\<close> or \<^verbatim>\<open>yaml.safe_load\<close> raises on, or a document
  with the value \<^verbatim>\<open>yaml.safe_load\<close> returns for it.
\<close>

datatype file_entry = Missing | Unreadable | Document pyval

text \<open>
  How \<^verbatim>\<open>GarudaEngine(final_args)\<close> followed by \<^verbatim>\<open>engine.start()\<close> ends: it returns,
  it raises \<^verbatim>\<open>KeyboardInterrupt\<close>, or it raises an \<^verbatim>\<open>Exception\<close> with a message.
\<close>

datatype engine_result = Returns | KeyboardInterrupt | Raises string

text \<open>
  The collaborators that are not part of \<^verbatim>\<open>main.py\<close>: the file system with the YAML
  reader, the engine of \<^verbatim>\<open>garuda.core.engine\<close>, the validation of a bracketed host
  that \<^verbatim>\<open>urllib.parse\<close> delegates to \<^verbatim>\<open>ipaddress\<close> and \<^verbatim>\<open>re\<close>, and what
  \<^verbatim>\<open>urllib.parse\<close> makes of a network location with a character outside ASCII, where
  its checks normalise with \<^verbatim>\<open>unicodedata\<close> and \<^verbatim>\<open>str.lower\<close> follows the Unicode
  case tables: the hostname, or \<open>None\<close> where it raises.
\<close>

record env =
  files :: "string \<Rightarrow> file_entry"
  engine :: "namespace \<Rightarrow> engine_result"
  bracketed_host_ok :: "string \<Rightarrow> bool"
  nonascii_hostname :: "string \<Rightarrow> pyval option"

datatype usage = Target_method_required | Attacks_required

datatype text_line =
    Disclaimer
  | Config_not_found string
  | Parser_error usage
  | Confirm_mismatch pyval pyval
  | Success
  | Unexpected_error string
  | Traceback

text \<open>
  What a run of \<^verbatim>\<open>main\<close> leaves behind: the exit status, the lines on the two
  streams, and the namespace \<^verbatim>\<open>GarudaEngine\<close> was constructed with, if it was.
\<close>

record process =
  status :: nat
  stdout :: "text_line list"
  stderr :: "text_line list"
  engine_args :: "namespace option"

text \<open>
  \<^verbatim>\<open>display_disclaimer()\<close> has run before anything can end the process, so every
  result starts with the banner on standard output.
\<close>

definition sys_exit :: "nat \<Rightarrow> text_line \<Rightarrow> process" where
  "sys_exit code line =
     \<lparr>status = code, stdout = [Disclaimer], stderr = [line], engine_args = None\<rparr>"

text \<open>An exception that no handler of \<^verbatim>\<open>main\<close> catches: traceback, status 1.\<close>

definition uncaught :: process where
  "uncaught = sys_exit 1 Traceback"

text \<open>
  \<^verbatim>\<open>parser.error(message)\<close> of \<^verbatim>\<open>argparse\<close>: the usage and the message go to
  standard error and the process ends through \<^verbatim>\<open>self.exit(2, ...)\<close>.
\<close>

definition parser_error :: "usage \<Rightarrow> process" where
  "parser_error u = sys_exit 2 (Parser_error u)"

section \<open>The hostname of \<^verbatim>\<open>urllib.parse\<close>\<close>

definition scheme_chars :: string where
  "scheme_chars =
     ''abcdefghijklmnopqrstuvwxyz'' @ ''ABCDEFGHIJKLMNOPQRSTUVWXYZ'' @ ''0123456789'' @ ''+-.''"

definition ascii_alpha :: "char \<Rightarrow> bool" where
  "ascii_alpha c = (c \<in> set (take 52 scheme_chars))"

definition lower_char :: "char \<Rightarrow> char" where
  "lower_char c =
     (case map_of (zip ''ABCDEFGHIJKLMNOPQRSTUVWXYZ'' ''abcdefghijklmnopqrstuvwxyz'') c of
        None \<Rightarrow> c | Some d \<Rightarrow> d)"

text \<open>\<^verbatim>\<open>s.partition(c)[0]\<close>, \<^verbatim>\<open>s.partition(c)[2]\<close> and \<^verbatim>\<open>s.rpartition(c)[2]\<close>.\<close>

definition before :: "char \<Rightarrow> string \<Rightarrow> string" where
  "before c s = takeWhile (\<lambda>x. x \<noteq> c) s"

definition after :: "char \<Rightarrow> string \<Rightarrow> string" where
  "after c s = drop 1 (dropWhile (\<lambda>x. x \<noteq> c) s)"

definition after_last :: "char \<Rightarrow> string \<Rightarrow> string" where
  "after_last c s = rev (takeWhile (\<lambda>x. x \<noteq> c) (rev s))"

text \<open>
  The start of \<^verbatim>\<open>urlsplit\<close>: leading C0 control characters and spaces are stripped,
  tab, carriage return and newline are removed everywhere, and a scheme (a letter followed
  by scheme characters, up to the first colon) is cut off.
\<close>

definition clean_url :: "string \<Rightarrow> string" where
  "clean_url url =
     filter (\<lambda>c. c \<notin> {CHR 0x09, CHR 0x0D, CHR 0x0A})
       (dropWhile (\<lambda>c. (of_char c :: nat) \<le> 32) url)"

definition strip_scheme :: "string \<Rightarrow> string" where
  "strip_scheme url =
     (let i = length (before CHR '':'' url) in
      if CHR '':'' \<in> set url \<and> 0 < i \<and> ascii_alpha (hd url)
         \<and> list_all (\<lambda>c. c \<in> set scheme_chars) (take i url)
      then drop (i + 1) url else url)"

text \<open>\<^verbatim>\<open>_splitnetloc(url, 2)[0]\<close>: from position 2 to the first of \<^verbatim>\<open>/?#\<close>.\<close>

definition splitnetloc :: "string \<Rightarrow> string" where
  "splitnetloc url = takeWhile (\<lambda>c. c \<notin> {CHR ''/'', CHR ''?'', CHR ''#''}) (drop 2 url)"

text \<open>
  The network location as \<^verbatim>\<open>urlsplit\<close> cuts it out, before any check: empty
  unless two slashes follow the scheme.
\<close>

definition raw_netloc :: "string \<Rightarrow> string" where
  "raw_netloc url0 =
     (let url = strip_scheme (clean_url url0) in
      if take 2 url = ''//'' then splitnetloc url else [])"

text \<open>
  The network location \<^verbatim>\<open>urlsplit\<close> returns when it is ASCII, or \<open>None\<close> where
  it raises \<^verbatim>\<open>ValueError\<close>: one bracket without the other, or a bracketed host that
  \<^verbatim>\<open>_check_bracketed_host\<close> rejects. \<^verbatim>\<open>_checknetloc\<close> returns at once for an
  ASCII location.
\<close>

definition urlsplit_netloc :: "(string \<Rightarrow> bool) \<Rightarrow> string \<Rightarrow> string option" where
  "urlsplit_netloc host_ok url0 =
     (let netloc = raw_netloc url0;
          open_br = CHR ''['' \<in> set netloc;
          close_br = CHR '']'' \<in> set netloc
      in if (open_br \<and> \<not> close_br) \<or> (close_br \<and> \<not> open_br) then None
         else if open_br \<and> close_br
                 \<and> \<not> host_ok (before CHR '']'' (after CHR ''['' netloc)) then None
         else Some netloc)"

text \<open>\<^verbatim>\<open>s.isascii()\<close>: every byte is below 128.\<close>

definition isascii :: "string \<Rightarrow> bool" where
  "isascii s = list_all (\<lambda>c. (of_char c :: nat) < 128) s"

text \<open>The first component of \<^verbatim>\<open>_hostinfo\<close>: the host as it is written in the URL.\<close>

definition hostinfo :: "string \<Rightarrow> string" where
  "hostinfo netloc =
     (let info = after_last CHR ''@'' netloc in
      if CHR ''['' \<in> set info then before CHR '']'' (after CHR ''['' info)
      else before CHR '':'' info)"

text \<open>
  The property \<^verbatim>\<open>hostname\<close> over an ASCII location: \<^verbatim>\<open>None\<close> for an empty host,
  otherwise the host with the part before the first \<^verbatim>\<open>%\<close> in lower case, which for
  ASCII is the change of the letters A to Z.
\<close>

definition hostname :: "string \<Rightarrow> pyval" where
  "hostname netloc =
     (let h = hostinfo netloc in
      if h = [] then PNone
      else PStr (map lower_char (before CHR ''%'' h) @ dropWhile (\<lambda>x. x \<noteq> CHR ''%'') h))"

text \<open>
  \<^verbatim>\<open>urlparse(v).hostname\<close> for a value \<open>v\<close> that is true: a value that is not a
  string has no \<^verbatim>\<open>decode\<close>, and \<^verbatim>\<open>_coerce_args\<close> raises \<^verbatim>\<open>AttributeError\<close>.
  \<open>None\<close> stands for the exception. A location with a character outside ASCII is
  left to the library.
\<close>

definition urlparse_hostname :: "env \<Rightarrow> pyval \<Rightarrow> pyval option" where
  "urlparse_hostname e v =
     (case v of
        PStr url \<Rightarrow>
          if isascii (raw_netloc url)
          then map_option hostname (urlsplit_netloc (bracketed_host_ok e) url)
          else nonascii_hostname e (raw_netloc url)
      | _ \<Rightarrow> None)"

section \<open>The phases of \<^verbatim>\<open>main\<close>\<close>

text \<open>
  Lines 75 to 81: the document of the configuration file. An empty path counts as no
  path (\<^verbatim>\<open>if args.config\<close>); a path that does not exist ends the process with
  status 1; a document that is false becomes the empty mapping.
\<close>

definition load_config :: "env \<Rightarrow> args \<Rightarrow> process + pyval" where
  "load_config e a =
     (case config a of
        None \<Rightarrow> Inr (PDict [])
      | Some path \<Rightarrow>
          if path = [] then Inr (PDict [])
          else (case files e path of
                  Missing \<Rightarrow> Inl (sys_exit 1 (Config_not_found path))
                | Unreadable \<Rightarrow> Inl uncaught
                | Document d \<Rightarrow> Inr (if truthy d then d else PDict [])))"

text \<open>
  The attributes that a mapping gives when it becomes the attribute dictionary of an
  object: its entries with a string for key, a later entry over an earlier one. An entry
  with another key cannot be read as an attribute.
\<close>

fun dict_attributes :: "(pyval \<times> pyval) list \<Rightarrow> namespace \<Rightarrow> namespace" where
  "dict_attributes [] ns = ns"
| "dict_attributes ((PStr key, v) # rest) ns = dict_attributes rest (ns(key \<mapsto> v))"
| "dict_attributes (_ # rest) ns = dict_attributes rest ns"

text \<open>
  Lines 85 and 86: \<^verbatim>\<open>setattr\<close> for every item of the mapping, in order. A name that
  is not a string raises \<^verbatim>\<open>TypeError\<close>. Three names are not ordinary attributes of
  a namespace: \<^verbatim>\<open>__class__\<close> takes a class only and \<^verbatim>\<open>__weakref__\<close> is not
  writable, so both raise for every value of a document; \<^verbatim>\<open>__dict__\<close> takes a mapping
  only, which then replaces all attributes set so far.
\<close>

fun set_from_file :: "(pyval \<times> pyval) list \<Rightarrow> namespace \<Rightarrow> namespace option" where
  "set_from_file [] ns = Some ns"
| "set_from_file ((PStr key, v) # rest) ns =
     (if key = ''__class__'' \<or> key = ''__weakref__'' then None
      else if key = ''__dict__'' then
        (case v of
           PDict d \<Rightarrow> set_from_file rest (dict_attributes d Map.empty)
         | _ \<Rightarrow> None)
      else set_from_file rest (ns(key \<mapsto> v)))"
| "set_from_file (_ # rest) ns = None"

text \<open>
  Lines 75 to 86 together: the namespace after the loop over the file, or the process the
  run has ended with. A document that is true and not a mapping has no \<^verbatim>\<open>items\<close>.
\<close>

definition file_namespace :: "env \<Rightarrow> args \<Rightarrow> process + namespace" where
  "file_namespace e a =
     (case load_config e a of
        Inl p \<Rightarrow> Inl p
      | Inr (PDict kvs) \<Rightarrow>
          (case set_from_file kvs Map.empty of
             None \<Rightarrow> Inl uncaught
           | Some ns \<Rightarrow> Inr ns)
      | Inr _ \<Rightarrow> Inl uncaught)"

text \<open>
  Lines 88 to 90: every command-line value that is neither \<^verbatim>\<open>None\<close> nor the object
  \<^verbatim>\<open>False\<close> is set on the namespace. The tests are identity tests, so the integer 0
  and the empty string pass them.
\<close>

fun overlay :: "(string \<times> pyval) list \<Rightarrow> namespace \<Rightarrow> namespace" where
  "overlay [] ns = ns"
| "overlay ((key, v) # rest) ns =
     overlay rest (if v \<noteq> PNone \<and> v \<noteq> PBool False then ns(key \<mapsto> v) else ns)"

text \<open>Lines 92 to 96: the two calls of \<^verbatim>\<open>parser.error\<close>, in their order.\<close>

definition check_required :: "namespace \<Rightarrow> usage option" where
  "check_required ns =
     (if \<not> truthy (getattr ns ''target'') \<or> \<not> truthy (getattr ns ''method'')
      then Some Target_method_required
      else if getattr ns ''method'' = PStr ''mixed'' \<and> \<not> truthy (getattr ns ''attacks'')
      then Some Attacks_required
      else None)"

text \<open>Lines 98 to 100: a default for each of three attributes the namespace lacks.\<close>

definition set_default :: "string \<Rightarrow> pyval \<Rightarrow> namespace \<Rightarrow> namespace" where
  "set_default key v ns = (if \<not> hasattr ns key then ns(key \<mapsto> v) else ns)"

definition apply_defaults :: "namespace \<Rightarrow> namespace" where
  "apply_defaults ns =
     set_default ''stealth'' (PBool False)
       (set_default ''duration'' (PInt 60)
         (set_default ''connections'' (PInt 100) ns))"

text \<open>Lines 107 to 115: the engine and the three ways its call is handled.\<close>

definition run_engine :: "env \<Rightarrow> namespace \<Rightarrow> process" where
  "run_engine e ns =
     (case engine e ns of
        Returns \<Rightarrow>
          \<lparr>status = 0, stdout = [Disclaimer, Success], stderr = [], engine_args = Some ns\<rparr>
      | KeyboardInterrupt \<Rightarrow>
          \<lparr>status = 0, stdout = [Disclaimer], stderr = [], engine_args = Some ns\<rparr>
      | Raises msg \<Rightarrow>
          \<lparr>status = 1, stdout = [Disclaimer], stderr = [Unexpected_error msg],
           engine_args = Some ns\<rparr>)"

text \<open>
  Lines 92 to 115, on the merged namespace. The comparison of line 103 is between a value
  that is true and a string or \<^verbatim>\<open>None\<close>, where \<^verbatim>\<open>!=\<close> is inequality of values.
\<close>

definition validate_and_run :: "env \<Rightarrow> namespace \<Rightarrow> process" where
  "validate_and_run e merged =
     (case check_required merged of
        Some u \<Rightarrow> parser_error u
      | None \<Rightarrow>
          (let final_args = apply_defaults merged in
           case urlparse_hostname e (getattr final_args ''target'') of
             None \<Rightarrow> uncaught
           | Some target_domain \<Rightarrow>
               if truthy (getattr final_args ''confirm_target'')
                  \<and> getattr final_args ''confirm_target'' \<noteq> target_domain
               then sys_exit 1 (Confirm_mismatch (getattr final_args ''confirm_target'')
                                  target_domain)
               else run_engine e final_args))"

definition main :: "env \<Rightarrow> args \<Rightarrow> process" where
  "main e a =
     (case file_namespace e a of
        Inl p \<Rightarrow> p
      | Inr ns \<Rightarrow> validate_and_run e (overlay (vars a) ns))"

section \<open>Example inputs\<close>

text \<open>
  A configuration document, a file system that holds it under one name, a world around
  it whose engine ends in a given way, and the arguments of a command line without
  options.
\<close>

definition config_yaml :: pyval where
  "config_yaml =
     PDict [(PStr ''target'', PStr ''http://good.com''),
            (PStr ''method'', PStr ''http-flood''),
            (PStr ''connections'', PInt 500),
            (PStr ''stealth'', PBool True)]"

definition disk :: "string \<Rightarrow> file_entry" where
  "disk path = (if path = ''config.yaml'' then Document config_yaml else Missing)"

definition world :: "engine_result \<Rightarrow> env" where
  "world r =
     \<lparr>files = disk, engine = (\<lambda>_. r), bracketed_host_ok = (\<lambda>_. False),
      nonascii_hostname = (\<lambda>_. None)\<rparr>"

definition no_args :: args where
  "no_args =
     \<lparr>target = None, method = None, config = None, attacks = None, connections = None,
      duration = None, confirm_target = None, stealth = False\<rparr>"

section \<open>Unfolding rules for concrete runs\<close>

lemmas url_defs = urlparse_hostname_def urlsplit_netloc_def raw_netloc_def isascii_def
  clean_url_def strip_scheme_def before_def after_def after_last_def splitnetloc_def
  hostname_def hostinfo_def lower_char_def scheme_chars_def ascii_alpha_def

lemmas run_defs = main_def file_namespace_def load_config_def validate_and_run_def
  check_required_def apply_defaults_def set_default_def hasattr_def getattr_def run_engine_def
  sys_exit_def uncaught_def parser_error_def vars_def opt_def

lemmas example_defs = config_yaml_def disk_def world_def no_args_def

section \<open>The overlay of the command line\<close>

lemma overlay_other: "k \<notin> fst ` set kvs \<Longrightarrow> overlay kvs ns k = ns k"
  by (induction kvs arbitrary: ns) auto

lemma overlay_distinct:
  "distinct (map fst kvs) \<Longrightarrow> (k, v) \<in> set kvs \<Longrightarrow>
   overlay kvs ns k = (if v \<noteq> PNone \<and> v \<noteq> PBool False then Some v else ns k)"
proof (induction kvs arbitrary: ns)
  case Nil
  then show ?case by simp
next
  case (Cons p kvs)
  obtain k' v' where p: "p = (k', v')" by (cases p)
  show ?case
  proof (cases "(k, v) = p")
    case True
    with Cons.prems p have "k \<notin> fst ` set kvs" by auto
    with True p show ?thesis by (simp add: overlay_other)
  next
    case False
    with Cons.prems p have "(k, v) \<in> set kvs" "distinct (map fst kvs)" "k \<noteq> k'"
      by (auto simp: rev_image_eqI)
    with Cons.IH[of "if v' \<noteq> PNone \<and> v' \<noteq> PBool False then ns(k' \<mapsto> v') else ns"] p
    show ?thesis by simp
  qed
qed

lemma distinct_vars: "distinct (map fst (vars a))"
  by (simp add: vars_def)

lemma overlay_vars:
  "(k, v) \<in> set (vars a) \<Longrightarrow>
   overlay (vars a) ns k = (if v \<noteq> PNone \<and> v \<noteq> PBool False then Some v else ns k)"
  by (rule overlay_distinct[OF distinct_vars])

lemma overlay_unset:
  assumes "(k, v) \<in> set (vars a)" and "v = PNone \<or> v = PBool False"
  shows "overlay (vars a) ns k = ns k"
  using overlay_vars[OF assms(1), of ns] assms(2) by auto

section \<open>The defaults\<close>

lemma set_default_apply:
  "set_default key d ns k = (if k = key \<and> ns key = None then Some d else ns k)"
  by (simp add: set_default_def hasattr_def)

lemma apply_defaults_connections:
  "apply_defaults ns ''connections'' =
     (case ns ''connections'' of None \<Rightarrow> Some (PInt 100) | Some v \<Rightarrow> Some v)"
  by (simp add: apply_defaults_def set_default_apply split: option.split)

lemma apply_defaults_duration:
  "apply_defaults ns ''duration'' =
     (case ns ''duration'' of None \<Rightarrow> Some (PInt 60) | Some v \<Rightarrow> Some v)"
  by (simp add: apply_defaults_def set_default_apply split: option.split)

lemma apply_defaults_stealth:
  "apply_defaults ns ''stealth'' =
     (case ns ''stealth'' of None \<Rightarrow> Some (PBool False) | Some v \<Rightarrow> Some v)"
  by (simp add: apply_defaults_def set_default_apply split: option.split)

lemma apply_defaults_other:
  "k \<noteq> ''connections'' \<Longrightarrow> k \<noteq> ''duration'' \<Longrightarrow> k \<noteq> ''stealth'' \<Longrightarrow>
   apply_defaults ns k = ns k"
  by (simp add: apply_defaults_def set_default_apply)

lemma apply_defaults_keeps: "ns k = Some v \<Longrightarrow> apply_defaults ns k = Some v"
proof -
  assume h: "ns k = Some v"
  consider "k = ''connections''" | "k = ''duration''" | "k = ''stealth''"
    | "k \<noteq> ''connections''" "k \<noteq> ''duration''" "k \<noteq> ''stealth''"
    by blast
  then show ?thesis
  proof cases
    case 1 with h show ?thesis by (simp add: apply_defaults_connections)
  next
    case 2 with h show ?thesis by (simp add: apply_defaults_duration)
  next
    case 3 with h show ?thesis by (simp add: apply_defaults_stealth)
  next
    case 4 with h show ?thesis by (simp add: apply_defaults_other)
  qed
qed

section \<open>How a run ends\<close>

lemma engine_args_sys_exit: "engine_args (sys_exit c l) = None"
  by (simp add: sys_exit_def)

lemma engine_args_uncaught: "engine_args uncaught = None"
  by (simp add: uncaught_def engine_args_sys_exit)

lemma engine_args_parser_error: "engine_args (parser_error u) = None"
  by (simp add: parser_error_def engine_args_sys_exit)

lemma status_parser_error: "status (parser_error u) = 2"
  by (simp add: parser_error_def sys_exit_def)

lemma stderr_parser_error: "stderr (parser_error u) = [Parser_error u]"
  by (simp add: parser_error_def sys_exit_def)

lemma engine_args_run_engine: "engine_args (run_engine e ns) = Some ns"
  by (simp add: run_engine_def split: engine_result.split)

lemma sys_exit_not_run_engine: "sys_exit c l \<noteq> run_engine e ns"
proof
  assume "sys_exit c l = run_engine e ns"
  then have "engine_args (sys_exit c l) = engine_args (run_engine e ns)" by simp
  then show False by (simp add: engine_args_sys_exit engine_args_run_engine)
qed

lemma load_config_Inl: "load_config e a = Inl p \<Longrightarrow> engine_args p = None"
  by (auto simp: load_config_def engine_args_sys_exit engine_args_uncaught
      split: option.splits if_splits file_entry.splits)

lemma engine_args_file_namespace: "file_namespace e a = Inl p \<Longrightarrow> engine_args p = None"
  by (auto simp: file_namespace_def engine_args_uncaught
      split: sum.splits pyval.splits option.splits dest: load_config_Inl)

lemma engine_args_validate:
  "engine_args (validate_and_run e m) = Some ns \<Longrightarrow>
   ns = apply_defaults m \<and> check_required m = None \<and> validate_and_run e m = run_engine e ns"
  by (auto simp: validate_and_run_def Let_def engine_args_sys_exit engine_args_uncaught
        engine_args_parser_error engine_args_run_engine
      split: option.splits if_splits)

text \<open>
  The engine is constructed only at the end of a run that has passed every check, and
  then with the merged namespace after the defaults.
\<close>

lemma main_engine_args:
  "engine_args (main e a) = Some ns \<Longrightarrow>
   \<exists>ns0. file_namespace e a = Inr ns0 \<and> ns = apply_defaults (overlay (vars a) ns0)
     \<and> check_required (overlay (vars a) ns0) = None \<and> main e a = run_engine e ns"
  by (auto simp: main_def split: sum.splits dest: engine_args_file_namespace engine_args_validate)

lemma main_engine_value:
  "file_namespace e a = Inr ns0 \<Longrightarrow> engine_args (main e a) = Some ns \<Longrightarrow>
   ns = apply_defaults (overlay (vars a) ns0)"
  by (auto dest: main_engine_args)

lemma main_parser_error:
  "file_namespace e a = Inr ns0 \<Longrightarrow> check_required (overlay (vars a) ns0) = Some u \<Longrightarrow>
   main e a = parser_error u"
  by (simp add: main_def validate_and_run_def)

lemma main_gate:
  assumes "file_namespace e a = Inr ns0"
    and "check_required (overlay (vars a) ns0) = None"
    and "urlparse_hostname e
           (getattr (apply_defaults (overlay (vars a) ns0)) ''target'') = Some td"
  shows "main e a =
     (let final_args = apply_defaults (overlay (vars a) ns0);
          c = getattr final_args ''confirm_target''
      in if truthy c \<and> c \<noteq> td then sys_exit 1 (Confirm_mismatch c td)
         else run_engine e final_args)"
  using assms by (simp add: main_def validate_and_run_def Let_def)

lemma file_namespace_no_config: "config a = None \<Longrightarrow> file_namespace e a = Inr Map.empty"
  by (simp add: file_namespace_def load_config_def)

lemma file_namespace_config_yaml:
  "config a = Some ''config.yaml'' \<Longrightarrow>
   file_namespace (world r) a =
     Inr [''target'' \<mapsto> PStr ''http://good.com'', ''method'' \<mapsto> PStr ''http-flood'',
          ''connections'' \<mapsto> PInt 500, ''stealth'' \<mapsto> PBool True]"
  by (simp add: file_namespace_def load_config_def example_defs)

text \<open>
  The host of \<^verbatim>\<open>http://good.com\<close> is found whatever follows the first slash or
  question mark.
\<close>

lemma hostname_good_com_path:
  "urlparse_hostname e (PStr (''http://good.com/'' @ rest)) = Some (PStr ''good.com'')"
  by (simp add: url_defs)

lemma hostname_good_com_query:
  "urlparse_hostname e (PStr (''http://good.com?'' @ rest)) = Some (PStr ''good.com'')"
  by (simp add: url_defs)

section \<open>Exit status of the required-argument checks\<close>

text \<open>
  Claim C1, as the code has it: whenever the merged namespace has no true \<^verbatim>\<open>target\<close>
  or no true \<^verbatim>\<open>method\<close>, or has the method \<^verbatim>\<open>mixed\<close> without a true
  \<^verbatim>\<open>attacks\<close>, the run ends through \<^verbatim>\<open>parser.error\<close>: the exit status is 2, one
  usage error is on standard error, and the engine is not constructed. The claim gives
  status 1 for these runs.
\<close>

theorem missing_required_is_usage_error:
  assumes "file_namespace e a = Inr ns0"
    and "merged = overlay (vars a) ns0"
    and "\<not> truthy (getattr merged ''target'') \<or> \<not> truthy (getattr merged ''method'')
         \<or> (getattr merged ''method'' = PStr ''mixed'' \<and> \<not> truthy (getattr merged ''attacks''))"
  shows "status (main e a) = 2 \<and> engine_args (main e a) = None
         \<and> (\<exists>u. stderr (main e a) = [Parser_error u])"
proof -
  from assms(3) have "check_required merged \<noteq> None"
    by (auto simp: check_required_def)
  then obtain u where "check_required merged = Some u"
    by blast
  with assms(1,2) have "main e a = parser_error u"
    by (simp add: main_parser_error)
  then show ?thesis
    by (simp add: status_parser_error stderr_parser_error engine_args_parser_error)
qed

text \<open>A command line without any option: neither target nor method.\<close>

theorem missing_required_is_usage_error_witness:
  "status (main (world Returns) no_args) = 2 \<and> engine_args (main (world Returns) no_args) = None"
proof -
  have h1: "file_namespace (world Returns) no_args = Inr Map.empty"
    by (simp add: file_namespace_no_config no_args_def)
  have h3: "\<not> truthy (getattr (overlay (vars no_args) Map.empty) ''target'')
      \<or> \<not> truthy (getattr (overlay (vars no_args) Map.empty) ''method'')
      \<or> (getattr (overlay (vars no_args) Map.empty) ''method'' = PStr ''mixed''
          \<and> \<not> truthy (getattr (overlay (vars no_args) Map.empty) ''attacks''))"
    by (simp add: vars_def opt_def getattr_def no_args_def)
  from missing_required_is_usage_error[OF h1 refl h3] show ?thesis by simp
qed

text \<open>
  The runs \<^verbatim>\<open>main.py http://x.com -m mixed\<close> and \<^verbatim>\<open>main.py -m http-flood\<close> end
  with status 2, not 1.
\<close>

theorem exit_code_1_counterexample:
  "status (main (world Returns)
     (no_args\<lparr>target := Some ''http://x.com'', method := Some ''mixed''\<rparr>)) = 2
   \<and> status (main (world Returns) (no_args\<lparr>method := Some ''http-flood''\<rparr>)) = 2"
  by (simp add: run_defs example_defs)

section \<open>A flag that is not passed\<close>



section \<open>The confirmation of the target\<close>

text \<open>On ASCII, \<open>lower_char\<close> leaves no capital letter and changes nothing else.\<close>

lemma lower_char_no_capital: "lower_char c \<notin> set ''ABCDEFGHIJKLMNOPQRSTUVWXYZ''"
  by (simp add: lower_char_def)

lemma lower_char_other: "c \<notin> set ''ABCDEFGHIJKLMNOPQRSTUVWXYZ'' \<Longrightarrow> lower_char c = c"
  by (simp add: lower_char_def)

lemma urlsplit_netloc_raw: "urlsplit_netloc ok url = Some n \<Longrightarrow> n = raw_netloc url"
  by (simp add: urlsplit_netloc_def Let_def split: if_splits)

lemma urlparse_hostname_ascii:
  assumes "urlparse_hostname e (PStr url) = Some td" and "isascii (raw_netloc url)"
  shows "td = hostname (raw_netloc url)"
proof -
  from assms have "map_option hostname (urlsplit_netloc (bracketed_host_ok e) url) = Some td"
    by (simp add: urlparse_hostname_def)
  then obtain n where n: "urlsplit_netloc (bracketed_host_ok e) url = Some n"
    and td: "td = hostname n"
    by auto
  from urlsplit_netloc_raw[OF n] td show ?thesis
    by simp
qed

text \<open>
  Claim C3, as the code has it: in a run that has passed the required-argument checks and
  whose target the URL parser accepts, the process ends with the mismatch error exactly
  when \<^verbatim>\<open>confirm_target\<close> is true (present and not empty) and differs, as it is
  written, from the hostname value the parser returns; otherwise the engine runs, so an
  empty \<^verbatim>\<open>confirm_target\<close> is treated as an absent one. The value the parser returns
  is not the host as the URL writes it: for an ASCII network location it is the written
  host with the part before its first \<^verbatim>\<open>%\<close> in lower case, and \<^verbatim>\<open>None\<close> when the
  host is empty.
\<close>

theorem confirm_target_gate:
  assumes "file_namespace e a = Inr ns0"
    and "check_required (overlay (vars a) ns0) = None"
    and "final_args = apply_defaults (overlay (vars a) ns0)"
    and "urlparse_hostname e (getattr final_args ''target'') = Some target_domain"
    and "c = getattr final_args ''confirm_target''"
  shows "(main e a = sys_exit 1 (Confirm_mismatch c target_domain))
           = (truthy c \<and> c \<noteq> target_domain)
         \<and> (main e a = run_engine e final_args) = (\<not> truthy c \<or> c = target_domain)
         \<and> (\<forall>url. getattr final_args ''target'' = PStr url \<and> isascii (raw_netloc url) \<longrightarrow>
               target_domain =
                 (let h = hostinfo (raw_netloc url) in
                  if h = [] then PNone
                  else PStr (map lower_char (before CHR ''%'' h)
                             @ dropWhile (\<lambda>x. x \<noteq> CHR ''%'') h)))"
proof -
  from assms have m: "main e a =
      (if truthy c \<and> c \<noteq> target_domain then sys_exit 1 (Confirm_mismatch c target_domain)
       else run_engine e final_args)"
    by (simp add: main_gate Let_def)
  have gate: "(main e a = sys_exit 1 (Confirm_mismatch c target_domain))
           = (truthy c \<and> c \<noteq> target_domain)
         \<and> (main e a = run_engine e final_args) = (\<not> truthy c \<or> c = target_domain)"
    using sys_exit_not_run_engine[of 1 "Confirm_mismatch c target_domain" e final_args]
    by (auto simp: m)
  have form: "\<forall>url. getattr final_args ''target'' = PStr url \<and> isascii (raw_netloc url) \<longrightarrow>
               target_domain =
                 (let h = hostinfo (raw_netloc url) in
                  if h = [] then PNone
                  else PStr (map lower_char (before CHR ''%'' h)
                             @ dropWhile (\<lambda>x. x \<noteq> CHR ''%'') h))"
  proof (intro allI impI)
    fix url
    assume u: "getattr final_args ''target'' = PStr url \<and> isascii (raw_netloc url)"
    with assms(4) have "urlparse_hostname e (PStr url) = Some target_domain"
      by simp
    with u have "target_domain = hostname (raw_netloc url)"
      by (simp add: urlparse_hostname_ascii)
    then show "target_domain =
                 (let h = hostinfo (raw_netloc url) in
                  if h = [] then PNone
                  else PStr (map lower_char (before CHR ''%'' h)
                             @ dropWhile (\<lambda>x. x \<noteq> CHR ''%'') h))"
      by (simp add: hostname_def)
  qed
  from gate form show ?thesis by simp
qed

text \<open>
  The confirmation repeats the host in the letter case of the URL, and fails: the
  parser's value is the lower-case host.
\<close>

theorem confirm_target_gate_witness:
  "main (world Returns)
     (no_args\<lparr>target := Some ''http://Good.com:8080/'', method := Some ''http-flood'',
              confirm_target := Some ''Good.com''\<rparr>)
   = sys_exit 1 (Confirm_mismatch (PStr ''Good.com'') (PStr ''good.com''))
   \<and> hostinfo (raw_netloc ''http://Good.com:8080/'') = ''Good.com''
   \<and> PStr ''good.com'' =
       (let h = hostinfo (raw_netloc ''http://Good.com:8080/'') in
        if h = [] then PNone
        else PStr (map lower_char (before CHR ''%'' h) @ dropWhile (\<lambda>x. x \<noteq> CHR ''%'') h))"
proof -
  let ?a = "no_args\<lparr>target := Some ''http://Good.com:8080/'', method := Some ''http-flood'',
              confirm_target := Some ''Good.com''\<rparr>"
  let ?f = "apply_defaults (overlay (vars ?a) Map.empty)"
  have h1: "file_namespace (world Returns) ?a = Inr Map.empty"
    by (simp add: file_namespace_no_config no_args_def)
  have h2: "check_required (overlay (vars ?a) Map.empty) = None"
    by (simp add: check_required_def vars_def opt_def getattr_def no_args_def)
  have h4: "urlparse_hostname (world Returns) (getattr ?f ''target'') = Some (PStr ''good.com'')"
    by (simp add: run_defs example_defs url_defs)
  have c: "getattr ?f ''confirm_target'' = PStr ''Good.com''"
    by (simp add: run_defs example_defs)
  have t: "getattr ?f ''target'' = PStr ''http://Good.com:8080/''"
    by (simp add: run_defs example_defs)
  have i: "isascii (raw_netloc ''http://Good.com:8080/'')"
    by (simp add: url_defs)
  have w: "hostinfo (raw_netloc ''http://Good.com:8080/'') = ''Good.com''"
    by (simp add: url_defs)
  note g = confirm_target_gate[OF h1 h2 refl h4 refl]
  from g c have m: "main (world Returns) ?a
      = sys_exit 1 (Confirm_mismatch (PStr ''Good.com'') (PStr ''good.com''))"
    by simp
  from g t i have n: "PStr ''good.com'' =
       (let h = hostinfo (raw_netloc ''http://Good.com:8080/'') in
        if h = [] then PNone
        else PStr (map lower_char (before CHR ''%'' h) @ dropWhile (\<lambda>x. x \<noteq> CHR ''%'') h))"
    by blast
  from m w n show ?thesis by blast
qed

text \<open>
  Two runs against the claim as it is stated. An empty \<^verbatim>\<open>--confirm-target\<close> is
  present and differs from the hostname \<^verbatim>\<open>good.com\<close>, and the engine runs without
  an error. A confirmation \<^verbatim>\<open>GOOD.com\<close> that equals, byte for byte, the host written
  in \<^verbatim>\<open>http://GOOD.com/\<close> ends with the mismatch error.
\<close>

theorem confirm_target_gate_counterexample:
  "urlparse_hostname (world Returns) (PStr ''http://good.com/'') = Some (PStr ''good.com'')
   \<and> stderr (main (world Returns)
        (no_args\<lparr>target := Some ''http://good.com/'', method := Some ''http-flood'',
                 confirm_target := Some ''''\<rparr>)) = []
   \<and> engine_args (main (world Returns)
        (no_args\<lparr>target := Some ''http://good.com/'', method := Some ''http-flood'',
                 confirm_target := Some ''''\<rparr>)) \<noteq> None
   \<and> urlsplit_netloc (\<lambda>_. False) ''http://GOOD.com/'' = Some ''GOOD.com''
   \<and> hostinfo ''GOOD.com'' = ''GOOD.com''
   \<and> stderr (main (world Returns)
        (no_args\<lparr>target := Some ''http://GOOD.com/'', method := Some ''http-flood'',
                 confirm_target := Some ''GOOD.com''\<rparr>))
       = [Confirm_mismatch (PStr ''GOOD.com'') (PStr ''good.com'')]"
  by (simp add: run_defs example_defs url_defs)

section \<open>The command line overrides the file\<close>

text \<open>
  Claim C4: a field that the file sets and that the command line supplies with a value
  that is neither \<^verbatim>\<open>None\<close> nor \<^verbatim>\<open>False\<close> has the command-line value after the
  overlay, after the defaults, and in the namespace the engine is constructed with.
\<close>

theorem command_line_overrides_file:
  assumes "file_namespace e a = Inr ns0"
    and "ns0 k = Some w"
    and "(k, v) \<in> set (vars a)"
    and "v \<noteq> PNone" and "v \<noteq> PBool False"
  shows "overlay (vars a) ns0 k = Some v
         \<and> apply_defaults (overlay (vars a) ns0) k = Some v
         \<and> (\<forall>ns. engine_args (main e a) = Some ns \<longrightarrow> ns k = Some v)"
proof -
  from assms(4,5) overlay_vars[OF assms(3), of ns0]
  have m: "overlay (vars a) ns0 k = Some v"
    by simp
  then have d: "apply_defaults (overlay (vars a) ns0) k = Some v"
    by (rule apply_defaults_keeps)
  from assms(1) d have "\<forall>ns. engine_args (main e a) = Some ns \<longrightarrow> ns k = Some v"
    by (auto dest: main_engine_value)
  with m d show ?thesis by simp
qed

text \<open>The run \<^verbatim>\<open>main.py --config config.yaml -c 1000\<close> over a file with 500.\<close>

theorem command_line_overrides_file_witness:
  "\<exists>ns. engine_args (main (world Returns)
            (no_args\<lparr>config := Some ''config.yaml'', connections := Some 1000\<rparr>)) = Some ns
        \<and> ns ''connections'' = Some (PInt 1000)"
proof -
  let ?a = "no_args\<lparr>config := Some ''config.yaml'', connections := Some 1000\<rparr>"
  let ?ns0 = "[''target'' \<mapsto> PStr ''http://good.com'', ''method'' \<mapsto> PStr ''http-flood'',
               ''connections'' \<mapsto> PInt 500, ''stealth'' \<mapsto> PBool True]"
  have h1: "file_namespace (world Returns) ?a = Inr ?ns0"
    by (simp add: file_namespace_config_yaml no_args_def)
  have h2: "?ns0 ''connections'' = Some (PInt 500)" by simp
  have h3: "(''connections'', PInt 1000) \<in> set (vars ?a)"
    by (simp add: vars_def opt_def no_args_def)
  have r: "\<exists>ns. engine_args (main (world Returns) ?a) = Some ns"
    by (simp add: run_defs example_defs url_defs)
  with command_line_overrides_file[OF h1 h2 h3] show ?thesis by auto
qed

section \<open>The built-in defaults\<close>



section \<open>The mixed method without attacks\<close>

text \<open>
  Claim C6, as the code has it: with the method \<^verbatim>\<open>mixed\<close> and no true \<^verbatim>\<open>attacks\<close>
  in the merged namespace, the engine is never constructed; the error is the one that asks
  for \<^verbatim>\<open>--attacks\<close> when the target is present and not empty, and the one that asks
  for target and method when it is not, because that check comes first.
\<close>

theorem mixed_without_attacks:
  assumes "file_namespace e a = Inr ns0"
    and "merged = overlay (vars a) ns0"
    and "getattr merged ''method'' = PStr ''mixed''"
    and "\<not> truthy (getattr merged ''attacks'')"
  shows "engine_args (main e a) = None
         \<and> (truthy (getattr merged ''target'') \<longrightarrow>
               stderr (main e a) = [Parser_error Attacks_required])
         \<and> (\<not> truthy (getattr merged ''target'') \<longrightarrow>
               stderr (main e a) = [Parser_error Target_method_required])"
proof (cases "truthy (getattr merged ''target'')")
  case True
  with assms(3,4) have "check_required merged = Some Attacks_required"
    by (simp add: check_required_def)
  with assms(1,2) have "main e a = parser_error Attacks_required"
    by (simp add: main_parser_error)
  with True show ?thesis
    by (simp add: stderr_parser_error engine_args_parser_error)
next
  case False
  then have "check_required merged = Some Target_method_required"
    by (simp add: check_required_def)
  with assms(1,2) have "main e a = parser_error Target_method_required"
    by (simp add: main_parser_error)
  with False show ?thesis
    by (simp add: stderr_parser_error engine_args_parser_error)
qed

text \<open>The run \<^verbatim>\<open>main.py http://x.com -m mixed\<close>.\<close>

theorem mixed_without_attacks_witness:
  "stderr (main (world Returns)
     (no_args\<lparr>target := Some ''http://x.com'', method := Some ''mixed''\<rparr>))
     = [Parser_error Attacks_required]
   \<and> engine_args (main (world Returns)
     (no_args\<lparr>target := Some ''http://x.com'', method := Some ''mixed''\<rparr>)) = None"
proof -
  let ?a = "no_args\<lparr>target := Some ''http://x.com'', method := Some ''mixed''\<rparr>"
  let ?m = "overlay (vars ?a) Map.empty"
  have h1: "file_namespace (world Returns) ?a = Inr Map.empty"
    by (simp add: file_namespace_no_config no_args_def)
  have h3: "getattr ?m ''method'' = PStr ''mixed''"
    and h4: "\<not> truthy (getattr ?m ''attacks'')"
    and h5: "truthy (getattr ?m ''target'')"
    by (simp_all add: vars_def opt_def getattr_def no_args_def)
  from mixed_without_attacks[OF h1 refl h3 h4] h5 show ?thesis by simp
qed

text \<open>
  The run \<^verbatim>\<open>main.py -m mixed\<close>: the method is \<^verbatim>\<open>mixed\<close>, there are no attacks,
  and the error is the one for the missing target.
\<close>

theorem mixed_without_target_counterexample:
  "getattr (overlay (vars (no_args\<lparr>method := Some ''mixed''\<rparr>)) Map.empty) ''method''
     = PStr ''mixed''
   \<and> getattr (overlay (vars (no_args\<lparr>method := Some ''mixed''\<rparr>)) Map.empty) ''attacks''
     = PNone
   \<and> stderr (main (world Returns) (no_args\<lparr>method := Some ''mixed''\<rparr>))
     = [Parser_error Target_method_required]"
  by (simp add: run_defs example_defs)

section \<open>A configuration file that does not exist\<close>




section \<open>A confirmation for another host\<close>

text \<open>
  Claim C8, as the code has it: in a run that has passed the required-argument checks,
  a target whose hostname parses to \<^verbatim>\<open>good.com\<close> together with the confirmation
  \<^verbatim>\<open>evil.com\<close> ends with the mismatch error and status 1, and the engine is not
  constructed.
\<close>

theorem good_host_evil_confirmation:
  assumes "file_namespace e a = Inr ns0"
    and "check_required (overlay (vars a) ns0) = None"
    and "final_args = apply_defaults (overlay (vars a) ns0)"
    and "getattr final_args ''target'' = PStr url"
    and "urlparse_hostname e (PStr url) = Some (PStr ''good.com'')"
    and "getattr final_args ''confirm_target'' = PStr ''evil.com''"
  shows "stderr (main e a) = [Confirm_mismatch (PStr ''evil.com'') (PStr ''good.com'')]
         \<and> status (main e a) = 1 \<and> engine_args (main e a) = None"
proof -
  from assms have "main e a = sys_exit 1 (Confirm_mismatch (PStr ''evil.com'') (PStr ''good.com''))"
    by (simp add: main_gate Let_def)
  then show ?thesis by (simp add: sys_exit_def)
qed

text \<open>The run \<^verbatim>\<open>main.py http://good.com/path -m http-flood --confirm-target evil.com\<close>.\<close>

theorem good_host_evil_confirmation_witness:
  "stderr (main (world Returns)
     (no_args\<lparr>target := Some ''http://good.com/path'', method := Some ''http-flood'',
              confirm_target := Some ''evil.com''\<rparr>))
     = [Confirm_mismatch (PStr ''evil.com'') (PStr ''good.com'')]
   \<and> status (main (world Returns)
     (no_args\<lparr>target := Some ''http://good.com/path'', method := Some ''http-flood'',
              confirm_target := Some ''evil.com''\<rparr>)) = 1"
proof -
  let ?a = "no_args\<lparr>target := Some ''http://good.com/path'', method := Some ''http-flood'',
              confirm_target := Some ''evil.com''\<rparr>"
  let ?f = "apply_defaults (overlay (vars ?a) Map.empty)"
  have h1: "file_namespace (world Returns) ?a = Inr Map.empty"
    by (simp add: file_namespace_no_config no_args_def)
  have h2: "check_required (overlay (vars ?a) Map.empty) = None"
    by (simp add: check_required_def vars_def opt_def getattr_def no_args_def)
  have h4: "getattr ?f ''target'' = PStr ''http://good.com/path''"
    by (simp add: run_defs example_defs)
  have h5: "urlparse_hostname (world Returns) (PStr ''http://good.com/path'')
              = Some (PStr ''good.com'')"
    by (simp add: url_defs)
  have h6: "getattr ?f ''confirm_target'' = PStr ''evil.com''"
    by (simp add: run_defs example_defs)
  from good_host_evil_confirmation[OF h1 h2 refl h4 h5 h6] show ?thesis by simp
qed

text \<open>
  The run \<^verbatim>\<open>main.py http://good.com/path --confirm-target evil.com\<close> without a
  method ends with the usage error and status 2.
\<close>

theorem evil_confirmation_without_method_counterexample:
  "urlparse_hostname (world Returns) (PStr ''http://good.com/path'') = Some (PStr ''good.com'')
   \<and> stderr (main (world Returns)
        (no_args\<lparr>target := Some ''http://good.com/path'',
                 confirm_target := Some ''evil.com''\<rparr>))
       = [Parser_error Target_method_required]
   \<and> status (main (world Returns)
        (no_args\<lparr>target := Some ''http://good.com/path'',
                 confirm_target := Some ''evil.com''\<rparr>)) = 2"
  by (simp add: run_defs example_defs url_defs)

section \<open>An interrupted engine\<close>

text \<open>
  Claim C9: when the engine is constructed and its call ends with
  \<^verbatim>\<open>KeyboardInterrupt\<close>, the process ends with status 0, nothing is on standard
  error, and standard output holds the banner only, without the success line.
\<close>

theorem keyboard_interrupt_is_clean:
  assumes "engine_args (main e a) = Some ns" and "engine e ns = KeyboardInterrupt"
  shows "status (main e a) = 0 \<and> stderr (main e a) = [] \<and> stdout (main e a) = [Disclaimer]"
proof -
  from assms(1) have "main e a = run_engine e ns"
    by (auto dest: main_engine_args)
  with assms(2) show ?thesis by (simp add: run_engine_def)
qed

text \<open>The run \<^verbatim>\<open>main.py --config config.yaml\<close>, interrupted.\<close>

theorem keyboard_interrupt_is_clean_witness:
  "status (main (world KeyboardInterrupt) (no_args\<lparr>config := Some ''config.yaml''\<rparr>)) = 0
   \<and> stderr (main (world KeyboardInterrupt) (no_args\<lparr>config := Some ''config.yaml''\<rparr>)) = []
   \<and> stdout (main (world KeyboardInterrupt) (no_args\<lparr>config := Some ''config.yaml''\<rparr>))
       = [Disclaimer]"
proof -
  let ?a = "no_args\<lparr>config := Some ''config.yaml''\<rparr>"
  have "\<exists>ns. engine_args (main (world KeyboardInterrupt) ?a) = Some ns"
    by (simp add: run_defs example_defs url_defs)
  then obtain ns where h1: "engine_args (main (world KeyboardInterrupt) ?a) = Some ns"
    by blast
  have h2: "engine (world KeyboardInterrupt) ns = KeyboardInterrupt"
    by (simp add: world_def)
  from keyboard_interrupt_is_clean[OF h1 h2] show ?thesis .
qed

section \<open>A zero on the command line\<close>

text \<open>
  Claim C10: the overlay leaves out exactly the command-line values \<^verbatim>\<open>None\<close> and
  \<^verbatim>\<open>False\<close>; so \<^verbatim>\<open>-c 0\<close> or \<^verbatim>\<open>-d 0\<close> puts the integer 0 in place of whatever
  the file has for that field, after the overlay, after the defaults, and in the namespace
  the engine is constructed with.
\<close>

theorem zero_overrides_file:
  assumes "file_namespace e a = Inr ns0"
    and "(k = ''connections'' \<and> connections a = Some 0) \<or> (k = ''duration'' \<and> duration a = Some 0)"
  shows "(\<forall>k' v. (k', v) \<in> set (vars a) \<longrightarrow>
            overlay (vars a) ns0 k' = (if v = PNone \<or> v = PBool False then ns0 k' else Some v))
         \<and> overlay (vars a) ns0 k = Some (PInt 0)
         \<and> apply_defaults (overlay (vars a) ns0) k = Some (PInt 0)
         \<and> (\<forall>ns. engine_args (main e a) = Some ns \<longrightarrow> ns k = Some (PInt 0))"
proof -
  have f: "\<forall>k' v. (k', v) \<in> set (vars a) \<longrightarrow>
            overlay (vars a) ns0 k' = (if v = PNone \<or> v = PBool False then ns0 k' else Some v)"
  proof (intro allI impI)
    fix k' v
    assume "(k', v) \<in> set (vars a)"
    from overlay_vars[OF this, of ns0]
    show "overlay (vars a) ns0 k' = (if v = PNone \<or> v = PBool False then ns0 k' else Some v)"
      by simp
  qed
  from assms(2) have z: "(k, PInt 0) \<in> set (vars a)"
  proof
    assume "k = ''connections'' \<and> connections a = Some 0"
    then show ?thesis by (simp add: vars_def opt_def)
  next
    assume "k = ''duration'' \<and> duration a = Some 0"
    then show ?thesis by (simp add: vars_def opt_def)
  qed
  from overlay_vars[OF z, of ns0] have m: "overlay (vars a) ns0 k = Some (PInt 0)"
    by simp
  then have d: "apply_defaults (overlay (vars a) ns0) k = Some (PInt 0)"
    by (rule apply_defaults_keeps)
  from assms(1) d have "\<forall>ns. engine_args (main e a) = Some ns \<longrightarrow> ns k = Some (PInt 0)"
    by (auto dest: main_engine_value)
  with f m d show ?thesis by simp
qed

text \<open>The run \<^verbatim>\<open>main.py --config config.yaml -c 0\<close> over a file with 500.\<close>

theorem zero_overrides_file_witness:
  "\<exists>ns. engine_args (main (world Returns)
            (no_args\<lparr>config := Some ''config.yaml'', connections := Some 0\<rparr>)) = Some ns
        \<and> ns ''connections'' = Some (PInt 0)"
proof -
  let ?a = "no_args\<lparr>config := Some ''config.yaml'', connections := Some 0\<rparr>"
  let ?ns0 = "[''target'' \<mapsto> PStr ''http://good.com'', ''method'' \<mapsto> PStr ''http-flood'',
               ''connections'' \<mapsto> PInt 500, ''stealth'' \<mapsto> PBool True]"
  have h1: "file_namespace (world Returns) ?a = Inr ?ns0"
    by (simp add: file_namespace_config_yaml no_args_def)
  have h2: "(''connections'' = ''connections'' \<and> connections ?a = Some 0)
            \<or> (''connections'' = ''duration'' \<and> duration ?a = Some 0)"
    by (simp add: no_args_def)
  have r: "\<exists>ns. engine_args (main (world Returns) ?a) = Some ns"
    by (simp add: run_defs example_defs url_defs)
  with zero_overrides_file[OF h1 h2] show ?thesis by auto
qed

end
